theory Spec2Isabelle
  imports Main
begin

section \<open>Values of the scripting runtime\<close>

text \<open>
  The values the marshaling templates of \<^verbatim>\<open>LuaFunBinding.h\<close> read from and
  write to the Lua stack. A table is held by value: its fields (key and value pairs)
  and, when it has one, the fields of its metatable. Numbers are the integral ones
  (keys of sequence tables, instance ids, integer parameters).
\<close>

datatype lkey = KNum int | KStr string

datatype lval =
    LNil
  | LBool bool
  | LNum int
  | LStr string
  | LTable "(lkey \<times> lval) list" "(lkey \<times> lval) list option"

section \<open>Errors and outcomes\<close>

text \<open>
  Every exception the modelled code throws is a value. A throwing C++ function leaves
  the mutations it made before the throw in place, so a raised error carries the state
  at the throw.
\<close>

datatype error =
    LuaProvenanceReenter string
  | LuaProvenanceInvalidUndoOrRedo string
  | LuaProvenanceInvalidUndo string
  | LuaProvenanceInvalidRedo string
  | LuaError string
  | LuaFunBindError string
  | AssertionFailure
  | IndexOutOfRange

datatype 's res = Ok 's | Raise error 's

section \<open>The provenance ledger\<close>

text \<open>\<^verbatim>\<open>UndoRedoItem\<close>: the function's name and the two parameter snapshots.\<close>

record UndoRedoItem =
  funcName :: string
  undoParams :: "lval list"
  redoParams :: "lval list"

text \<open>
  A native callable registered with the scripting system, together with the marshaling
  of its arguments: it transforms the native state of the application or throws. It
  does not call back into the scripting system; what the ledger does with a nested call
  is read off \<^verbatim>\<open>logExecution\<close> in a state that is already logging.
\<close>

type_synonym 'st callable = "lval list \<Rightarrow> 'st \<Rightarrow> 'st res"

text \<open>
  The function table that \<^verbatim>\<open>LuaScripting::getFunctionTable\<close> pushes for a
  registered name: the last-executed-parameter table (keys \<open>0 .. n - 1\<close>, held as
  the list of its values), the undo/redo exemption flag, the doc string, and the
  metatable's \<^verbatim>\<open>__call\<close> field (\<open>None\<close>: no metatable; \<open>Some None\<close>: a
  metatable without \<^verbatim>\<open>__call\<close>).
\<close>

record 'c funTable =
  lastExec :: "lval list"
  stackExempt :: bool
  docString :: string
  meta_call :: "'c option option"

text \<open>
  The members of \<^verbatim>\<open>LuaProvenance\<close>, and what it reaches through
  \<^verbatim>\<open>mScripting\<close>: the function tables of the Lua state and the native state
  the registered callables act on.
\<close>

record 'st LuaProvenance =
  mEnabled :: bool
  mStackPointer :: nat
  mUndoRedoStack :: "UndoRedoItem list"
  mLoggingProvenance :: bool
  mDoProvReenterException :: bool
  mUndoRedoProvenanceDisable :: bool
  funTables :: "string \<Rightarrow> 'st callable funTable option"
  native :: 'st

text \<open>The constructor's initial values, around given function tables and native state.\<close>

definition newLuaProvenance ::
  "(string \<Rightarrow> 'st callable funTable option) \<Rightarrow> 'st \<Rightarrow> 'st LuaProvenance" where
  "newLuaProvenance tabs st =
     \<lparr> mEnabled = True, mStackPointer = 0, mUndoRedoStack = [],
       mLoggingProvenance = False, mDoProvReenterException = True,
       mUndoRedoProvenanceDisable = False, funTables = tabs, native = st \<rparr>"

text \<open>\<^verbatim>\<open>pop_back\<close>, \<open>n\<close> times (on an empty vector it is left empty).\<close>

fun pop_back_n :: "nat \<Rightarrow> 'a list \<Rightarrow> 'a list" where
  "pop_back_n 0 xs = xs"
| "pop_back_n (Suc n) xs = pop_back_n n (butlast xs)"

text \<open>Reading and writing key \<open>i\<close> of a table held as the list of its values.\<close>

definition lastExec_get :: "lval list \<Rightarrow> nat \<Rightarrow> lval" where
  "lastExec_get t i = (if i < length t then t ! i else LNil)"

definition lastExec_set :: "lval list \<Rightarrow> nat \<Rightarrow> lval \<Rightarrow> lval list" where
  "lastExec_set t i v =
     (if i < length t then t[i := v] else if i = length t then t @ [v] else t)"

text \<open>
  Modelled from the spec: \<^verbatim>\<open>LuaScripting::copyParamsToTable\<close> is not among the
  sources; after it "last exec table parameters will match what we just executed":
  keys \<open>0 .. numParams - 1\<close> of the table are set to the pushed parameters.
\<close>

definition copyParamsToTable :: "lval list \<Rightarrow> lval list \<Rightarrow> lval list" where
  "copyParamsToTable t params =
     fold (\<lambda>i t'. lastExec_set t' i (params ! i)) [0..<length params] t"

text \<open>
  \<^verbatim>\<open>LuaProvenance::logExecution\<close>. The reentry check comes first, then the
  undo/redo suppression, then the exemption; a logged call pops the records at and
  above the stack pointer, reads the function's last-executed parameters into
  \<^verbatim>\<open>emptyParams\<close> (only when there are any), pushes the new record, and
  overwrites the last-executed table with \<^verbatim>\<open>funParams\<close>. The two assertions on
  the ledger and on the number of parameters are branches that fail, as in a build with
  assertions. The Lua stack is scratch space that the function leaves as it found it; it
  is not part of the state. A function table that does not exist is \<^verbatim>\<open>nil\<close>, on
  which \<^verbatim>\<open>lua_getfield\<close> raises.
\<close>

definition logExecution ::
  "string \<Rightarrow> bool \<Rightarrow> lval list \<Rightarrow> lval list \<Rightarrow> 'st LuaProvenance \<Rightarrow> 'st LuaProvenance res" where
  "logExecution fname undoRedoStackExempt funParams emptyParams s =
    (if mLoggingProvenance s then
       (if mDoProvReenterException s
        then Raise (LuaProvenanceReenter
               ''LuaProvenance reentry not allowed. Considerdisabling provenance.enableReentryException'') s
        else Ok s)
     else if mUndoRedoProvenanceDisable s then Ok s
     else
       let s1 = s\<lparr>mLoggingProvenance := True\<rparr> in
       if undoRedoStackExempt then Ok (s1\<lparr>mLoggingProvenance := False\<rparr>)
       else
         let stackDiff = int (length (mUndoRedoStack s1)) - int (mStackPointer s1);
             s2 = s1\<lparr>mUndoRedoStack := pop_back_n (nat stackDiff) (mUndoRedoStack s1)\<rparr>
         in
         if length (mUndoRedoStack s2) \<noteq> mStackPointer s2 then Raise AssertionFailure s2
         else
           (case funTables s2 fname of
              None \<Rightarrow> Raise (LuaError ''attempt to index a nil value'') s2
            | Some ft \<Rightarrow>
                let lastExecTable = lastExec ft;
                    numParams = length lastExecTable;
                    pulled = map (lastExec_get lastExecTable) [0..<numParams];
                    emptyParams' = (if numParams \<noteq> 0 then pulled else emptyParams);
                    s3 = s2\<lparr>mUndoRedoStack := mUndoRedoStack s2 @
                               [\<lparr>funcName = fname, undoParams = emptyParams',
                                 redoParams = funParams\<rparr>],
                             mStackPointer := mStackPointer s2 + 1\<rparr>
                in
                if numParams \<noteq> length funParams then Raise AssertionFailure s3
                else
                  let lastExecTable' =
                        fold (\<lambda>i t. lastExec_set t i (funParams ! i)) [0..<numParams]
                          lastExecTable;
                      s4 = s3\<lparr>funTables :=
                               (funTables s3)(fname \<mapsto> ft\<lparr>lastExec := lastExecTable'\<rparr>)\<rparr>
                  in Ok (s4\<lparr>mLoggingProvenance := False\<rparr>)))"

text \<open>
  Modelled from the spec: the callback through which the scripting runtime runs a
  registered function (\<^verbatim>\<open>LuaFunBindingCore.h\<close>) is not among the sources. Following
  the spec's \<open>invoke\<close>, it runs the native callable on the marshaled arguments and, on
  success, notifies the ledger with the function's exemption flag and a fresh parameter
  pack for the undo snapshot. A disabled ledger records nothing (re-enabling "starts a
  fresh empty ledger"), so it is notified only while \<^verbatim>\<open>isEnabled\<close> holds.

  The update of the last-executed parameters that the spec's \<open>invoke\<close> names is the
  one \<^verbatim>\<open>logExecution\<close> makes, and the callback makes none of its own. The source
  shows it in two places. \<^verbatim>\<open>logExecution\<close> reads the table for the undo
  parameters of the new record ("Gather last execution parameters for inclusion in the
  undo stack") and only then overwrites it ("Repopulate the lastExec table to most
  recently executed function parameters"): a callback that had already written the
  arguments would make every record's undo parameters equal to its redo parameters.
  And \<^verbatim>\<open>performUndoRedoOp\<close>, which runs the callback with logging suppressed,
  writes the table itself after the call ("Last exec table parameters will match what we
  just executed").
\<close>

definition exec ::
  "'st callable \<Rightarrow> bool \<Rightarrow> string \<Rightarrow> lval list \<Rightarrow> 'st LuaProvenance \<Rightarrow> 'st LuaProvenance res" where
  "exec c exempt fname args s =
     (case c args (native s) of
        Raise e st' \<Rightarrow> Raise e (s\<lparr>native := st'\<rparr>)
      | Ok st' \<Rightarrow>
          (if mEnabled s then logExecution fname exempt args [] (s\<lparr>native := st'\<rparr>)
           else Ok (s\<lparr>native := st'\<rparr>)))"

text \<open>
  Modelled from the spec: a call \<^verbatim>\<open>fname(args)\<close> issued by a script resolves the
  function table and runs its \<^verbatim>\<open>__call\<close> metamethod.
\<close>

definition invoke :: "string \<Rightarrow> lval list \<Rightarrow> 'st LuaProvenance \<Rightarrow> 'st LuaProvenance res" where
  "invoke fname args s =
     (case funTables s fname of
        None \<Rightarrow> Raise (LuaError ''attempt to call a nil value'') s
      | Some ft \<Rightarrow>
          (case meta_call ft of
             Some (Some c) \<Rightarrow> exec c (stackExempt ft) fname args s
           | _ \<Rightarrow> Raise (LuaError ''attempt to call a table value'') s))"

text \<open>
  Modelled from the spec: the same callback around a native body that itself calls
  registered functions through the scripting runtime ("a registered function whose
  native body itself invokes another registered function"). Such a body acts on the
  whole bridge, the ledger included, and not on the native state alone.
  \<^verbatim>\<open>nativeBody\<close> is the body of a callable that makes no such call.
\<close>

definition execBody ::
  "('st LuaProvenance \<Rightarrow> 'st LuaProvenance res) \<Rightarrow> bool \<Rightarrow> string \<Rightarrow> lval list
     \<Rightarrow> 'st LuaProvenance \<Rightarrow> 'st LuaProvenance res" where
  "execBody body exempt fname args s =
     (case body s of
        Raise e s' \<Rightarrow> Raise e s'
      | Ok s' \<Rightarrow>
          (if mEnabled s' then logExecution fname exempt args [] s' else Ok s'))"

definition nativeBody ::
  "'st callable \<Rightarrow> lval list \<Rightarrow> 'st LuaProvenance \<Rightarrow> 'st LuaProvenance res" where
  "nativeBody c args s =
     (case c args (native s) of
        Raise e st' \<Rightarrow> Raise e (s\<lparr>native := st'\<rparr>)
      | Ok st' \<Rightarrow> Ok (s\<lparr>native := st'\<rparr>))"

text \<open>
  \<^verbatim>\<open>LuaProvenance::performUndoRedoOp\<close>: the three checks, the call with logging
  suppressed, then the last-executed table set to the replayed parameters. When the
  call throws, the assignment that clears \<^verbatim>\<open>mUndoRedoProvenanceDisable\<close> is not
  reached.
\<close>

definition performUndoRedoOp ::
  "string \<Rightarrow> lval list \<Rightarrow> 'st LuaProvenance \<Rightarrow> 'st LuaProvenance res" where
  "performUndoRedoOp fn params s =
     (case funTables s fn of
        None \<Rightarrow> Raise (LuaProvenanceInvalidUndoOrRedo ''Function table does not exist.'') s
      | Some ft \<Rightarrow>
          (case meta_call ft of
             None \<Rightarrow>
               Raise (LuaProvenanceInvalidUndoOrRedo
                        ''Does not appear to be a valid function.'') s
           | Some None \<Rightarrow>
               Raise (LuaProvenanceInvalidUndoOrRedo
                        ''Function has invalid function pointer.'') s
           | Some (Some c) \<Rightarrow>
               (case exec c (stackExempt ft) fn params
                       (s\<lparr>mUndoRedoProvenanceDisable := True\<rparr>) of
                  Raise e s' \<Rightarrow> Raise e s'
                | Ok s1 \<Rightarrow>
                    let s2 = s1\<lparr>mUndoRedoProvenanceDisable := False\<rparr> in
                    (case funTables s2 fn of
                       None \<Rightarrow> Raise (LuaError ''attempt to index a nil value'') s2
                     | Some ft' \<Rightarrow>
                         Ok (s2\<lparr>funTables := (funTables s2)
                                (fn \<mapsto> ft'\<lparr>lastExec :=
                                   copyParamsToTable (lastExec ft') params\<rparr>)\<rparr>)))))"

text \<open>
  \<^verbatim>\<open>LuaProvenance::issueUndo\<close> and \<^verbatim>\<open>issueRedo\<close>. The handler catches
  \<^verbatim>\<open>LuaProvenanceInvalidUndoOrRedo\<close> only; anything else propagates as it is. The
  stack pointer is changed after the replay returned. Indexing the vector beyond its
  size is undefined in C++ and is an explicit failure here.
\<close>

definition issueUndo :: "'st LuaProvenance \<Rightarrow> 'st LuaProvenance res" where
  "issueUndo s =
     (if mStackPointer s = 0
      then Raise (LuaProvenanceInvalidUndo ''Undo pointer at bottom of stack.'') s
      else
        let undoIndex = mStackPointer s - 1 in
        if length (mUndoRedoStack s) \<le> undoIndex then Raise IndexOutOfRange s
        else
          let undoItem = mUndoRedoStack s ! undoIndex in
          (case performUndoRedoOp (funcName undoItem) (undoParams undoItem) s of
             Raise (LuaProvenanceInvalidUndoOrRedo m) s' \<Rightarrow>
               Raise (LuaProvenanceInvalidUndo m) s'
           | Raise e s' \<Rightarrow> Raise e s'
           | Ok s' \<Rightarrow> Ok (s'\<lparr>mStackPointer := mStackPointer s' - 1\<rparr>)))"

definition issueRedo :: "'st LuaProvenance \<Rightarrow> 'st LuaProvenance res" where
  "issueRedo s =
     (if mStackPointer s = length (mUndoRedoStack s)
      then Raise (LuaProvenanceInvalidRedo ''Redo pointer at top of stack.'') s
      else
        let redoIndex = mStackPointer s in
        if length (mUndoRedoStack s) \<le> redoIndex then Raise IndexOutOfRange s
        else
          let redoItem = mUndoRedoStack s ! redoIndex in
          (case performUndoRedoOp (funcName redoItem) (redoParams redoItem) s of
             Raise (LuaProvenanceInvalidUndoOrRedo m) s' \<Rightarrow>
               Raise (LuaProvenanceInvalidRedo m) s'
           | Raise e s' \<Rightarrow> Raise e s'
           | Ok s' \<Rightarrow> Ok (s'\<lparr>mStackPointer := mStackPointer s' + 1\<rparr>)))"

definition clearProvenance :: "'st LuaProvenance \<Rightarrow> 'st LuaProvenance" where
  "clearProvenance s = s\<lparr>mUndoRedoStack := [], mStackPointer := 0\<rparr>"

definition setEnabled :: "bool \<Rightarrow> 'st LuaProvenance \<Rightarrow> 'st LuaProvenance" where
  "setEnabled enabled s =
     (let s1 = (if enabled = False \<and> mEnabled s = True then clearProvenance s else s)
      in s1\<lparr>mEnabled := enabled\<rparr>)"

definition enableProvReentryEx :: "bool \<Rightarrow> 'st LuaProvenance \<Rightarrow> 'st LuaProvenance" where
  "enableProvReentryEx enable s = s\<lparr>mDoProvReenterException := enable\<rparr>"

section \<open>Scripts\<close>

text \<open>
  What a script does to the ledger: call a registered function, or call
  \<^verbatim>\<open>provenance.undo\<close> or \<^verbatim>\<open>provenance.redo\<close>. A script stops at the
  first error.
\<close>

datatype op = Call string "lval list" | Undo | Redo

fun step :: "op \<Rightarrow> 'st LuaProvenance \<Rightarrow> 'st LuaProvenance res" where
  "step (Call fname args) s = invoke fname args s"
| "step Undo s = issueUndo s"
| "step Redo s = issueRedo s"

fun run :: "op list \<Rightarrow> 'st LuaProvenance \<Rightarrow> 'st LuaProvenance res" where
  "run [] s = Ok s"
| "run (x # xs) s =
     (case step x s of
        Raise e s' \<Rightarrow> Raise e s'
      | Ok s' \<Rightarrow> run xs s')"

definition isExempt :: "'st LuaProvenance \<Rightarrow> string \<Rightarrow> bool" where
  "isExempt s fname = (case funTables s fname of None \<Rightarrow> False | Some ft \<Rightarrow> stackExempt ft)"






text \<open>The ledger is enabled and idle: it is neither logging nor replaying.\<close>

definition idle :: "'st LuaProvenance \<Rightarrow> bool" where
  "idle s \<longleftrightarrow>
     mEnabled s \<and> \<not> mLoggingProvenance s \<and> \<not> mUndoRedoProvenanceDisable s"

section \<open>The fixture of the provenance unit tests\<close>

text \<open>
  Class \<^verbatim>\<open>A\<close> of \<^verbatim>\<open>ProvenanceClassTests\<close>, reduced to its two integer
  members and their setters, registered with the default parameter \<open>0\<close> of
  \<^verbatim>\<open>LuaStrictStack<int>::getDefault\<close>.
\<close>

record A =
  i1 :: int
  i2 :: int

definition set_i1 :: "A callable" where
  "set_i1 args a = (case args of [LNum i] \<Rightarrow> Ok (a\<lparr>i1 := i\<rparr>)
                    | _ \<Rightarrow> Raise (LuaError ''bad argument'') a)"

definition set_i2 :: "A callable" where
  "set_i2 args a = (case args of [LNum i] \<Rightarrow> Ok (a\<lparr>i2 := i\<rparr>)
                    | _ \<Rightarrow> Raise (LuaError ''bad argument'') a)"


definition registered :: "'c \<Rightarrow> 'c funTable" where
  "registered c = \<lparr> lastExec = [LNum 0], stackExempt = False, docString = [],
                    meta_call = Some (Some c) \<rparr>"

definition testTables :: "string \<Rightarrow> A callable funTable option" where
  "testTables = [''set_i1'' \<mapsto> registered set_i1, ''set_i2'' \<mapsto> registered set_i2]"

definition testState :: "A LuaProvenance" where
  "testState = newLuaProvenance testTables \<lparr> i1 = 0, i2 = 0 \<rparr>"




section \<open>Registration of the provenance functions\<close>

text \<open>The member functions of \<^verbatim>\<open>LuaProvenance\<close> that are bound to script names.\<close>

datatype memberFn = IssueUndo | IssueRedo | SetEnabled | ClearProvenance | EnableProvReentryEx

text \<open>
  The default parameters of a bound member function, from its signature:
  \<^verbatim>\<open>LuaStrictStack<bool>::getDefault\<close> is \<^verbatim>\<open>false\<close>.
\<close>

fun memberDefaults :: "memberFn \<Rightarrow> lval list" where
  "memberDefaults IssueUndo = []"
| "memberDefaults IssueRedo = []"
| "memberDefaults SetEnabled = [LBool False]"
| "memberDefaults ClearProvenance = []"
| "memberDefaults EnableProvReentryEx = [LBool False]"

text \<open>
  Modelled from the spec: \<^verbatim>\<open>LuaMemberReg::registerFunction\<close> and
  \<^verbatim>\<open>LuaScripting::setUndoRedoStackExempt\<close> are not among the sources. The spec's
  \<open>register\<close> fails on a name that is already registered, starts the last-executed
  parameters at the defaults and the exemption flag at false; \<open>setExempt\<close> changes the
  flag of a registered function.
\<close>

definition registerFunction ::
  "'c \<Rightarrow> lval list \<Rightarrow> string \<Rightarrow> string \<Rightarrow> (string \<Rightarrow> 'c funTable option)
     \<Rightarrow> error + (string \<Rightarrow> 'c funTable option)" where
  "registerFunction f defaults name desc tabs =
     (if tabs name \<noteq> None then Inl (LuaFunBindError name)
      else Inr (tabs(name \<mapsto> \<lparr> lastExec = defaults, stackExempt = False,
                              docString = desc, meta_call = Some (Some f) \<rparr>)))"

definition setUndoRedoStackExempt ::
  "string \<Rightarrow> bool \<Rightarrow> (string \<Rightarrow> 'c funTable option) \<Rightarrow> error + (string \<Rightarrow> 'c funTable option)" where
  "setUndoRedoStackExempt name exempt tabs =
     (case tabs name of
        None \<Rightarrow> Inl (LuaError name)
      | Some ft \<Rightarrow> Inr (tabs(name \<mapsto> ft\<lparr>stackExempt := exempt\<rparr>)))"

definition andThen :: "error + 'a \<Rightarrow> ('a \<Rightarrow> error + 'b) \<Rightarrow> error + 'b" where
  "andThen r k = (case r of Inl e \<Rightarrow> Inl e | Inr x \<Rightarrow> k x)"

text \<open>
  \<^verbatim>\<open>LuaProvenance::registerLuaProvenanceFunctions\<close>, statement by statement: five
  registrations, four of them followed by the exemption.
\<close>

definition registerLuaProvenanceFunctions ::
  "(string \<Rightarrow> memberFn funTable option) \<Rightarrow> error + (string \<Rightarrow> memberFn funTable option)" where
  "registerLuaProvenanceFunctions tabs =
     andThen (registerFunction IssueUndo (memberDefaults IssueUndo)
                ''provenance.undo'' ''Undoes last script call.'' tabs) (\<lambda>t1.
     andThen (setUndoRedoStackExempt ''provenance.undo'' True t1) (\<lambda>t2.
     andThen (registerFunction IssueRedo (memberDefaults IssueRedo)
                ''provenance.redo'' ''Redoes the last undo call.'' t2) (\<lambda>t3.
     andThen (setUndoRedoStackExempt ''provenance.redo'' True t3) (\<lambda>t4.
     andThen (registerFunction SetEnabled (memberDefaults SetEnabled)
                ''provenance.enable''
                ''Enable/Disable provenance. This is not an undo-able action and will clear your provenance history if disabled.''
                t4) (\<lambda>t5.
     andThen (setUndoRedoStackExempt ''provenance.enable'' True t5) (\<lambda>t6.
     andThen (registerFunction ClearProvenance (memberDefaults ClearProvenance)
                ''provenance.clear''
                ''Clears all provenance and undo/redo stacks. This is not an undo-able action.''
                t6) (\<lambda>t7.
     andThen (setUndoRedoStackExempt ''provenance.clear'' True t7) (\<lambda>t8.
     registerFunction EnableProvReentryEx (memberDefaults EnableProvReentryEx)
                ''provenance.enableReentryException''
                ''Enables/Disables the provenance reentry exception. Disable this to (take a deep breath) allow functions registered with LuaScripting to call other functions registered within LuaScripting from within Lua.''
                t8))))))))"

definition exemptIn :: "(string \<Rightarrow> 'c funTable option) \<Rightarrow> string \<Rightarrow> bool" where
  "exemptIn tabs name = (case tabs name of None \<Rightarrow> False | Some ft \<Rightarrow> stackExempt ft)"

definition provenanceNames :: "string list" where
  "provenanceNames = [''provenance.undo'', ''provenance.redo'', ''provenance.enable'',
                      ''provenance.clear'', ''provenance.enableReentryException'']"

text \<open>The registry after the registration into an empty one.\<close>

definition provenanceTables :: "string \<Rightarrow> memberFn funTable option" where
  "provenanceTables =
     (case registerLuaProvenanceFunctions Map.empty of Inl e \<Rightarrow> Map.empty | Inr tabs \<Rightarrow> tabs)"

section \<open>Marshaling\<close>

text \<open>The value a table holds at a key; \<^verbatim>\<open>nil\<close> when the key is absent.\<close>

definition table_get :: "(lkey \<times> lval) list \<Rightarrow> lkey \<Rightarrow> lval" where
  "table_get t k = (case map_of t k of None \<Rightarrow> LNil | Some v \<Rightarrow> v)"

text \<open>\<^verbatim>\<open>LuaStrictStack<bool>::get\<close>: the type check, then the value.\<close>

definition bool_get :: "lval \<Rightarrow> error + bool" where
  "bool_get v = (case v of LBool b \<Rightarrow> Inr b | _ \<Rightarrow> Inl (LuaError ''boolean expected''))"

text \<open>
  \<^verbatim>\<open>LuaStrictStack<std::vector<T> >::get\<close> on the value at \<^verbatim>\<open>pos\<close>, with the
  element type's \<^verbatim>\<open>get\<close> as a parameter. The loop reads the keys
  \<open>index, index + 1, ...\<close> and leaves at the first \<^verbatim>\<open>nil\<close>; an error of the element's
  \<^verbatim>\<open>get\<close> leaves the loop as well.
\<close>

function vector_get_loop ::
  "(lval \<Rightarrow> error + 'a) \<Rightarrow> (lkey \<times> lval) list \<Rightarrow> int \<Rightarrow> 'a list \<Rightarrow> error + 'a list" where
  "vector_get_loop elemGet t index ret =
     (if table_get t (KNum index) = LNil then Inr ret
      else
        (case elemGet (table_get t (KNum index)) of
           Inl e \<Rightarrow> Inl e
         | Inr x \<Rightarrow> vector_get_loop elemGet t (index + 1) (ret @ [x])))"
  by pat_completeness auto

definition keysFrom :: "int \<Rightarrow> (lkey \<times> lval) list \<Rightarrow> (lkey \<times> lval) list" where
  "keysFrom index t = filter (\<lambda>kv. case fst kv of KNum i \<Rightarrow> index \<le> i | KStr _ \<Rightarrow> False) t"

definition vector_get :: "(lval \<Rightarrow> error + 'a) \<Rightarrow> lval \<Rightarrow> error + 'a list" where
  "vector_get elemGet v =
     (case v of
        LTable t m \<Rightarrow> vector_get_loop elemGet t 1 []
      | _ \<Rightarrow> Inl (LuaError ''table expected''))"

text \<open>
  \<^verbatim>\<open>LuaStrictStack<LuaClassInstance>\<close>. The constants
  \<^verbatim>\<open>DEFAULT_INSTANCE_ID\<close> and \<^verbatim>\<open>MD_GLOBAL_INSTANCE_ID\<close> of
  \<^verbatim>\<open>LuaClassInstance.h\<close> are parameters. A class instance is its global id, an
  \<^verbatim>\<open>int\<close>, to which the integer read from the metatable is cast. Indexing a value
  that is neither a table nor \<^verbatim>\<open>nil\<close> fails in the runtime.
\<close>

definition LuaClassInstance_get :: "int \<Rightarrow> string \<Rightarrow> lval \<Rightarrow> error + int" where
  "LuaClassInstance_get DEFAULT_INSTANCE_ID MD_GLOBAL_INSTANCE_ID v =
     (case v of
        LNil \<Rightarrow> Inr DEFAULT_INSTANCE_ID
      | LTable flds meta \<Rightarrow>
          (if table_get flds (KStr ''_DefaultInstance_'') = LNil then
             (case meta of
                None \<Rightarrow> Inl (LuaError ''Unable to find class metatable.'')
              | Some mt \<Rightarrow>
                  (case table_get mt (KStr MD_GLOBAL_INSTANCE_ID) of
                     LNum globalID \<Rightarrow> Inr (signed_take_bit 31 globalID)
                   | _ \<Rightarrow> Inl (LuaError ''number expected'')))
           else Inr DEFAULT_INSTANCE_ID)
      | _ \<Rightarrow> Inl (LuaError ''attempt to index a value that is not a table''))"

text \<open>
  \<^verbatim>\<open>push\<close> returns the value it leaves on the stack. \<open>dostring\<close> stands for the
  runtime: the value that \<^verbatim>\<open>luaL_dostring\<close> leaves for the chunk that returns the
  instance table of the given id. Where that value is \<^verbatim>\<open>nil\<close>, and for the
  default id, the source makes a new table and sets its field
  \<^verbatim>\<open>_DefaultInstance_\<close> to \<^verbatim>\<open>true\<close>.
\<close>

definition LuaClassInstance_push :: "int \<Rightarrow> (int \<Rightarrow> lval) \<Rightarrow> int \<Rightarrow> lval" where
  "LuaClassInstance_push DEFAULT_INSTANCE_ID dostring inst =
     (if inst \<noteq> DEFAULT_INSTANCE_ID then
        (if dostring inst = LNil
         then LTable [(KStr ''_DefaultInstance_'', LBool True)] None
         else dostring inst)
      else LTable [(KStr ''_DefaultInstance_'', LBool True)] None)"


text \<open>The state an outcome carries.\<close>

fun state_of :: "'s res \<Rightarrow> 's" where
  "state_of (Ok s) = s"
| "state_of (Raise e s) = s"

text \<open>
  The states of the spec's end-to-end scenario: after the three calls, after one undo,
  and after the new call that follows the undo.
\<close>

definition threeCalls :: "A LuaProvenance" where
  "threeCalls = state_of (run [Call ''set_i1'' [LNum 1], Call ''set_i1'' [LNum 2], Call ''set_i2'' [LNum 10]] testState)"

definition afterUndo :: "A LuaProvenance" where
  "afterUndo = state_of (run [Undo] threeCalls)"

definition afterCall :: "A LuaProvenance" where
  "afterCall = state_of (invoke ''set_i1'' [LNum 42] afterUndo)"

text \<open>A table with the integer keys 1 and 3.\<close>

definition sparseTable :: lval where
  "sparseTable = LTable [(KNum 1, LBool True), (KNum 3, LBool False)] None"

section \<open>Histories\<close>

text \<open>A sequence of calls, as a script.\<close>

definition callOps :: "(string \<times> lval list) list \<Rightarrow> op list" where
  "callOps cs = map (\<lambda>c. Call (fst c) (snd c)) cs"








section \<open>More states of the fixture\<close>

text \<open>The three calls of the spec's scenario, and states along it.\<close>

definition scenario :: "(string \<times> lval list) list" where
  "scenario = [(''set_i1'', [LNum 1]), (''set_i1'', [LNum 2]), (''set_i2'', [LNum 10])]"

definition oneCall :: "A LuaProvenance" where
  "oneCall = state_of (run (callOps (take 1 scenario)) testState)"

definition twoUndone :: "A LuaProvenance" where
  "twoUndone = state_of (run (callOps scenario @ replicate 2 Undo) testState)"






text \<open>
  The scenario's state after its three calls and two undos (the stack pointer is
  \<open>1\<close> below three records), and after the call \<^verbatim>\<open>set_i1(42)\<close> that follows.
\<close>

definition rewound :: "A LuaProvenance" where
  "rewound = state_of (run (replicate 2 Undo) threeCalls)"

definition branched :: "A LuaProvenance" where
  "branched = state_of (invoke ''set_i1'' [LNum 42] rewound)"

text \<open>
  A registered function that rejects its own default parameter: \<^verbatim>\<open>set_pos\<close>
  stores a positive number in \<open>i2\<close> and raises an error on any other argument. It is
  registered, like every function of one integer parameter, with the default \<open>0\<close>
  of \<^verbatim>\<open>LuaStrictStack<int>::getDefault\<close> in its last-executed table.
\<close>

definition set_pos :: "A callable" where
  "set_pos args a =
     (case args of
        [LNum i] \<Rightarrow> (if 0 < i then Ok (a\<lparr>i2 := i\<rparr>)
                     else Raise (LuaError ''positive number expected'') a)
      | _ \<Rightarrow> Raise (LuaError ''bad argument'') a)"

definition strictState :: "A LuaProvenance" where
  "strictState =
     newLuaProvenance [''set_i1'' \<mapsto> registered set_i1, ''set_pos'' \<mapsto> registered set_pos]
       \<lparr> i1 = 0, i2 = 0 \<rparr>"

text \<open>
  The state after the script called \<^verbatim>\<open>set_pos(5)\<close>, and the state in which
  \<^verbatim>\<open>provenance.undo()\<close>, called next, throws.
\<close>

definition posCalled :: "A LuaProvenance" where
  "posCalled = state_of (run [Call ''set_pos'' [LNum 5]] strictState)"

definition stuckState :: "A LuaProvenance" where
  "stuckState = state_of (run [Call ''set_pos'' [LNum 5], Undo] strictState)"

text \<open>
  A registered function \<^verbatim>\<open>relay()\<close> without parameters whose native body calls
  \<^verbatim>\<open>set_i1(5)\<close> through the scripting runtime and does nothing else. Its
  last-executed table is empty; the callable \<open>relay\<close> of its function table is what
  the body does to the native state apart from that call.
\<close>

definition relay :: "A callable" where
  "relay args a = (case args of [] \<Rightarrow> Ok a | _ \<Rightarrow> Raise (LuaError ''bad argument'') a)"

definition relayState :: "A LuaProvenance" where
  "relayState =
     newLuaProvenance
       [''set_i1'' \<mapsto> registered set_i1,
        ''relay'' \<mapsto> (registered relay)\<lparr>lastExec := []\<rparr>]
       \<lparr> i1 = 0, i2 = 0 \<rparr>"

text \<open>
  The states after the script called \<^verbatim>\<open>relay()\<close>: with the reentry exception
  enabled, as the constructor leaves it, and after
  \<^verbatim>\<open>provenance.enableReentryException(false)\<close>.
\<close>

definition relayed :: "A LuaProvenance" where
  "relayed = state_of (execBody (invoke ''set_i1'' [LNum 5]) False ''relay'' [] relayState)"

definition relayedQuiet :: "A LuaProvenance" where
  "relayedQuiet =
     state_of (execBody (invoke ''set_i1'' [LNum 5]) False ''relay'' []
                 (enableProvReentryEx False relayState))"

section \<open>Termination of the sequence loop\<close>

lemma keysFrom_decreases:
  assumes "table_get t (KNum index) \<noteq> LNil"
  shows "length (keysFrom (index + 1) t) < length (keysFrom index t)"
proof -
  from assms obtain v where "map_of t (KNum index) = Some v"
    by (auto simp: table_get_def split: option.splits)
  then have mem: "(KNum index, v) \<in> set t" by (rule map_of_SomeD)
  let ?P = "\<lambda>kv::lkey \<times> lval. case fst kv of KNum i \<Rightarrow> index \<le> i | KStr _ \<Rightarrow> False"
  let ?Q = "\<lambda>kv::lkey \<times> lval. case fst kv of KNum i \<Rightarrow> index + 1 \<le> i | KStr _ \<Rightarrow> False"
  have eq: "filter ?Q t = filter ?Q (filter ?P t)"
    by (rule sym, simp, rule filter_cong) (auto split: lkey.splits)
  have "(KNum index, v) \<in> set (filter ?P t)" using mem by simp
  moreover have "\<not> ?Q (KNum index, v)" by simp
  ultimately have "length (filter ?Q (filter ?P t)) < length (filter ?P t)"
    by (rule length_filter_less)
  with eq show ?thesis by (simp add: keysFrom_def)
qed

termination vector_get_loop
  by (relation "measure (\<lambda>(elemGet, t, index, ret). length (keysFrom index t))")
     (simp_all add: keysFrom_decreases)

section \<open>Unfolding the fixture\<close>

lemmas fixture_defs = testState_def newLuaProvenance_def testTables_def registered_def
  set_i1_def set_i2_def

lemmas ledger_defs = invoke_def exec_def logExecution_def Let_def lastExec_get_def
  lastExec_set_def issueUndo_def issueRedo_def performUndoRedoOp_def copyParamsToTable_def

lemmas scenario_defs = scenario_def callOps_def threeCalls_def afterUndo_def afterCall_def
  oneCall_def twoUndone_def


lemmas strict_defs = strictState_def posCalled_def stuckState_def set_pos_def relayState_def
  relay_def rewound_def branched_def relayed_def relayedQuiet_def

section \<open>Reentry\<close>

text \<open>
  The guard at the head of \<^verbatim>\<open>logExecution\<close>: entered with
  \<^verbatim>\<open>mLoggingProvenance\<close> set, it throws \<^verbatim>\<open>LuaProvenanceReenter\<close> if the
  reentry exception is enabled and returns at once otherwise, and no member of the
  ledger changes. The flag is set and cleared inside \<^verbatim>\<open>logExecution\<close> (set
  after the two guards, cleared on the exempt path and at the end), so
  \<^verbatim>\<open>logExecution\<close> never returns with the flag set when it was entered with the
  flag clear, and the callback around a body without nested calls is the one around
  bodies in general.
\<close>

lemma logExecution_reentry:
  assumes "mLoggingProvenance s"
  shows "(mDoProvReenterException s \<longrightarrow>
            (\<exists>m. logExecution fname False funParams emptyParams s
                   = Raise (LuaProvenanceReenter m) s))
       \<and> (\<not> mDoProvReenterException s \<longrightarrow>
            logExecution fname False funParams emptyParams s = Ok s)"
  using assms by (simp add: logExecution_def)

lemma logExecution_clears_flag:
  assumes "\<not> mLoggingProvenance s" "logExecution fname ex ps eps s = Ok s'"
  shows "\<not> mLoggingProvenance s'"
  using assms
  by (auto simp: logExecution_def Let_def split: if_splits option.splits)

lemma exec_execBody: "exec c exempt fname args s = execBody (nativeBody c args) exempt fname args s"
  by (simp add: exec_def execBody_def nativeBody_def split: res.splits)

text \<open>
  C4. The script calls \<^verbatim>\<open>relay()\<close>, a registered non-exempt function whose native
  body calls the registered non-exempt function \<^verbatim>\<open>set_i1(5)\<close>. The source's
  comment on the flag ("Used to tell when someone has done something bad: exec a
  registered lua function within another registered lua function") and the doc string
  of \<^verbatim>\<open>provenance.enableReentryException\<close> want this call refused with
  \<^verbatim>\<open>LuaProvenanceReenter\<close> while the reentry exception is enabled, and skipped
  without a record when it is disabled. The code does neither: no native body runs
  between the assignment that sets \<^verbatim>\<open>mLoggingProvenance\<close> and those that clear
  it, so the nested call finds the flag clear. With the reentry exception enabled and
  with it disabled alike, both calls return, the nested call is recorded, then the outer
  one, and the stack pointer is \<open>2\<close>.
\<close>

theorem nested_call_is_logged:
  "mDoProvReenterException relayState
   \<and> execBody (invoke ''set_i1'' [LNum 5]) False ''relay'' [] relayState = Ok relayed
   \<and> mUndoRedoStack relayed =
        [\<lparr>funcName = ''set_i1'', undoParams = [LNum 0], redoParams = [LNum 5]\<rparr>,
         \<lparr>funcName = ''relay'', undoParams = [], redoParams = []\<rparr>]
   \<and> mStackPointer relayed = 2
   \<and> native relayed = \<lparr>i1 = 5, i2 = 0\<rparr>
   \<and> \<not> mDoProvReenterException (enableProvReentryEx False relayState)
   \<and> execBody (invoke ''set_i1'' [LNum 5]) False ''relay'' []
        (enableProvReentryEx False relayState) = Ok relayedQuiet
   \<and> mUndoRedoStack relayedQuiet =
        [\<lparr>funcName = ''set_i1'', undoParams = [LNum 0], redoParams = [LNum 5]\<rparr>,
         \<lparr>funcName = ''relay'', undoParams = [], redoParams = []\<rparr>]
   \<and> mStackPointer relayedQuiet = 2"
  by (simp add: relayed_def relayedQuiet_def execBody_def enableProvReentryEx_def
        strict_defs fixture_defs ledger_defs set_i1_def)

section \<open>Boundaries of the history\<close>

text \<open>
  C5. \<^verbatim>\<open>issueUndo\<close> with the stack pointer at \<open>0\<close> throws
  \<^verbatim>\<open>LuaProvenanceInvalidUndo\<close>, and \<^verbatim>\<open>issueRedo\<close> with the stack pointer
  at the size of the undo/redo stack throws \<^verbatim>\<open>LuaProvenanceInvalidRedo\<close>; the state
  at the throw is the state at entry, so neither the records nor the stack pointer
  changed.
\<close>

theorem boundary_undo_redo:
  "(mStackPointer s = 0 \<longrightarrow>
      (\<exists>m. issueUndo s = Raise (LuaProvenanceInvalidUndo m) s))
   \<and> (mStackPointer s = length (mUndoRedoStack s) \<longrightarrow>
      (\<exists>m. issueRedo s = Raise (LuaProvenanceInvalidRedo m) s))"
  by (simp add: issueUndo_def issueRedo_def)

theorem boundary_undo_redo_witness:
  "mStackPointer testState = 0 \<and> mStackPointer testState = length (mUndoRedoStack testState)
   \<and> (\<exists>m. issueUndo testState = Raise (LuaProvenanceInvalidUndo m) testState)
   \<and> (\<exists>m. issueRedo testState = Raise (LuaProvenanceInvalidRedo m) testState)"
  using boundary_undo_redo [of testState]
  by (simp add: testState_def newLuaProvenance_def)

section \<open>A replay that fails\<close>

lemma logExecution_suppressed:
  assumes "mUndoRedoProvenanceDisable s"
  shows "logExecution fn ex ps eps s = Ok s
       \<or> (\<exists>m. logExecution fn ex ps eps s = Raise (LuaProvenanceReenter m) s)"
  using assms by (simp add: logExecution_def)






section \<open>What a successful operation does\<close>

lemma pop_back_n_take: "pop_back_n n xs = take (length xs - n) xs"
proof (induction n arbitrary: xs)
  case 0
  show ?case by simp
next
  case (Suc n)
  show ?case by (simp add: Suc.IH butlast_conv_take)
qed

lemma map_lastExec_get: "map (lastExec_get t) [0..<length t] = t"
  by (rule nth_equalityI) (simp_all add: lastExec_get_def)

lemma fold_lastExec_set:
  "n \<le> length ps \<Longrightarrow>
   fold (\<lambda>i t'. lastExec_set t' i (ps ! i)) [0..<n] t = take n ps @ drop n t"
proof (induction n)
  case 0
  show ?case by simp
next
  case (Suc n)
  then have n: "n < length ps" by simp
  have IH: "fold (\<lambda>i t'. lastExec_set t' i (ps ! i)) [0..<n] t = take n ps @ drop n t"
    using Suc by simp
  show ?case
  proof (cases "n < length t")
    case True
    then have "lastExec_set (take n ps @ drop n t) n (ps ! n)
                 = take n ps @ (drop n t)[0 := ps ! n]"
      using n by (simp add: lastExec_set_def list_update_append)
    also have "(drop n t)[0 := ps ! n] = ps ! n # drop (Suc n) t"
      using True by (simp add: Cons_nth_drop_Suc [symmetric])
    finally show ?thesis using IH n by (simp add: take_Suc_conv_app_nth)
  next
    case False
    then have "lastExec_set (take n ps @ drop n t) n (ps ! n) = take n ps @ [ps ! n]"
      using n by (simp add: lastExec_set_def)
    then show ?thesis using IH n False by (simp add: take_Suc_conv_app_nth)
  qed
qed

lemma logExecution_Ok_le:
  assumes "\<not> mLoggingProvenance s" "\<not> mUndoRedoProvenanceDisable s"
    and "logExecution fname False funParams emptyParams s = Ok s'"
  shows "mStackPointer s \<le> length (mUndoRedoStack s)"
proof (rule ccontr)
  assume "\<not> mStackPointer s \<le> length (mUndoRedoStack s)"
  then have "nat (int (length (mUndoRedoStack s)) - int (mStackPointer s)) = 0"
    and "length (mUndoRedoStack s) \<noteq> mStackPointer s"
    by simp_all
  with assms show False by (simp add: logExecution_def Let_def)
qed

lemma logExecution_Ok_logged:
  assumes idle: "\<not> mLoggingProvenance s" "\<not> mUndoRedoProvenanceDisable s"
    and ok: "logExecution fname False funParams emptyParams s = Ok s'"
  shows "\<exists>ft. funTables s fname = Some ft \<and> length funParams = length (lastExec ft) \<and>
           s' = s\<lparr>mUndoRedoStack := take (mStackPointer s) (mUndoRedoStack s) @
                      [\<lparr>funcName = fname,
                        undoParams = (if lastExec ft = [] then emptyParams else lastExec ft),
                        redoParams = funParams\<rparr>],
                   mStackPointer := mStackPointer s + 1,
                   funTables := (funTables s)(fname \<mapsto> ft\<lparr>lastExec :=
                      fold (\<lambda>i t. lastExec_set t i (funParams ! i)) [0..<length funParams]
                        (lastExec ft)\<rparr>)\<rparr>"
proof -
  have le: "mStackPointer s \<le> length (mUndoRedoStack s)"
    by (rule logExecution_Ok_le [OF idle ok])
  have n: "nat (int (length (mUndoRedoStack s)) - int (mStackPointer s))
             = length (mUndoRedoStack s) - mStackPointer s"
    by simp
  have len: "length (mUndoRedoStack s) - (length (mUndoRedoStack s) - mStackPointer s)
               = mStackPointer s"
    using le by simp
  from ok idle obtain ft where ft: "funTables s fname = Some ft"
    by (auto simp: logExecution_def Let_def pop_back_n_take n len split: if_splits option.splits)
  from ok idle ft have eq: "length funParams = length (lastExec ft)"
    by (auto simp: logExecution_def Let_def pop_back_n_take n len split: if_splits)
  from ok idle ft eq le show ?thesis
    by (auto simp: logExecution_def Let_def pop_back_n_take n len map_lastExec_get)
qed

lemma issueRedo_at_top:
  "mStackPointer s = length (mUndoRedoStack s) \<Longrightarrow>
   issueRedo s = Raise (LuaProvenanceInvalidRedo ''Redo pointer at top of stack.'') s"
  by (simp add: issueRedo_def)

lemma exec_Raise_or_Ok:
  "(\<exists>e st. c args (native s) = Raise e st \<and> exec c ex fn args s = Raise e (s\<lparr>native := st\<rparr>))
   \<or> (\<exists>st. c args (native s) = Ok st \<and>
         exec c ex fn args s =
           (if mEnabled s then logExecution fn ex args [] (s\<lparr>native := st\<rparr>)
            else Ok (s\<lparr>native := st\<rparr>)))"
  by (cases "c args (native s)") (simp_all add: exec_def)

lemma performUndoRedoOp_Ok:
  assumes ok: "performUndoRedoOp fn ps s = Ok s'"
  shows "\<exists>ft c st. funTables s fn = Some ft \<and> meta_call ft = Some (Some c)
           \<and> c ps (native s) = Ok st
           \<and> s' = s\<lparr>mUndoRedoProvenanceDisable := False, native := st,
                    funTables := (funTables s)(fn \<mapsto> ft\<lparr>lastExec :=
                       copyParamsToTable (lastExec ft) ps\<rparr>)\<rparr>"
proof -
  from ok obtain ft where ft: "funTables s fn = Some ft"
    by (auto simp: performUndoRedoOp_def split: option.splits)
  from ok ft obtain c where c: "meta_call ft = Some (Some c)"
    by (auto simp: performUndoRedoOp_def split: option.splits)
  let ?s1 = "s\<lparr>mUndoRedoProvenanceDisable := True\<rparr>"
  from ok ft c obtain s1 where s1: "exec c (stackExempt ft) fn ps ?s1 = Ok s1"
    by (auto simp: performUndoRedoOp_def split: res.splits)
  from exec_Raise_or_Ok [of c ps ?s1 "stackExempt ft" fn] s1
  obtain st where st: "c ps (native s) = Ok st"
    and lg: "(if mEnabled s then logExecution fn (stackExempt ft) ps [] (?s1\<lparr>native := st\<rparr>)
              else Ok (?s1\<lparr>native := st\<rparr>)) = Ok s1"
    by auto
  have "mUndoRedoProvenanceDisable (?s1\<lparr>native := st\<rparr>)" by simp
  from logExecution_suppressed [OF this, of fn "stackExempt ft" ps "[]"] lg
  have s1_eq: "s1 = ?s1\<lparr>native := st\<rparr>" by (auto split: if_splits)
  from ok ft c s1 s1_eq have
    "s' = s\<lparr>mUndoRedoProvenanceDisable := False, native := st,
            funTables := (funTables s)(fn \<mapsto> ft\<lparr>lastExec :=
               copyParamsToTable (lastExec ft) ps\<rparr>)\<rparr>"
    by (auto simp: performUndoRedoOp_def Let_def)
  with ft c st show ?thesis by blast
qed

lemma issueUndo_Ok:
  assumes ok: "issueUndo s = Ok s'"
  shows "0 < mStackPointer s \<and> mStackPointer s \<le> length (mUndoRedoStack s) \<and>
         (\<exists>ft c st. funTables s (funcName (mUndoRedoStack s ! (mStackPointer s - 1))) = Some ft
           \<and> meta_call ft = Some (Some c)
           \<and> c (undoParams (mUndoRedoStack s ! (mStackPointer s - 1))) (native s) = Ok st
           \<and> s' = s\<lparr>mStackPointer := mStackPointer s - 1,
                    mUndoRedoProvenanceDisable := False, native := st,
                    funTables := (funTables s)
                      (funcName (mUndoRedoStack s ! (mStackPointer s - 1)) \<mapsto>
                         ft\<lparr>lastExec := copyParamsToTable (lastExec ft)
                              (undoParams (mUndoRedoStack s ! (mStackPointer s - 1)))\<rparr>)\<rparr>)"
proof -
  let ?r = "mUndoRedoStack s ! (mStackPointer s - 1)"
  from ok have pos: "0 < mStackPointer s" and le: "mStackPointer s \<le> length (mUndoRedoStack s)"
    by (auto simp: issueUndo_def Let_def split: if_splits)
  from ok pos le obtain s1 where p: "performUndoRedoOp (funcName ?r) (undoParams ?r) s = Ok s1"
    and s': "s' = s1\<lparr>mStackPointer := mStackPointer s1 - 1\<rparr>"
    by (auto simp: issueUndo_def Let_def split: if_splits res.splits error.splits)
  from performUndoRedoOp_Ok [OF p] s' pos le show ?thesis by auto
qed

lemma issueRedo_Ok:
  assumes ok: "issueRedo s = Ok s'"
  shows "mStackPointer s < length (mUndoRedoStack s) \<and>
         (\<exists>ft c st. funTables s (funcName (mUndoRedoStack s ! mStackPointer s)) = Some ft
           \<and> meta_call ft = Some (Some c)
           \<and> c (redoParams (mUndoRedoStack s ! mStackPointer s)) (native s) = Ok st
           \<and> s' = s\<lparr>mStackPointer := mStackPointer s + 1,
                    mUndoRedoProvenanceDisable := False, native := st,
                    funTables := (funTables s)
                      (funcName (mUndoRedoStack s ! mStackPointer s) \<mapsto>
                         ft\<lparr>lastExec := copyParamsToTable (lastExec ft)
                              (redoParams (mUndoRedoStack s ! mStackPointer s))\<rparr>)\<rparr>)"
proof -
  let ?r = "mUndoRedoStack s ! mStackPointer s"
  from ok have lt: "mStackPointer s < length (mUndoRedoStack s)"
    by (auto simp: issueRedo_def Let_def split: if_splits)
  from ok lt obtain s1 where p: "performUndoRedoOp (funcName ?r) (redoParams ?r) s = Ok s1"
    and s': "s' = s1\<lparr>mStackPointer := mStackPointer s1 + 1\<rparr>"
    by (auto simp: issueRedo_def Let_def split: if_splits res.splits error.splits)
  from performUndoRedoOp_Ok [OF p] s' lt show ?thesis by auto
qed

lemma isExempt_lastExec_update:
  assumes "funTables s f0 = Some ft"
    and "funTables s' = (funTables s)(f0 \<mapsto> ft\<lparr>lastExec := x\<rparr>)"
  shows "isExempt s' f = isExempt s f"
  using assms by (simp add: isExempt_def)

lemma issueUndo_isExempt:
  assumes "issueUndo s = Ok s'"
  shows "isExempt s' f = isExempt s f"
proof -
  from issueUndo_Ok [OF assms] obtain ft x f0 where "funTables s f0 = Some ft"
    and "funTables s' = (funTables s)(f0 \<mapsto> ft\<lparr>lastExec := x\<rparr>)"
    by auto
  then show ?thesis by (rule isExempt_lastExec_update)
qed

lemma undos_Ok:
  assumes "run (replicate M Undo) s0 = Ok s" "1 \<le> M"
  shows "mStackPointer s < length (mUndoRedoStack s) \<and> \<not> mUndoRedoProvenanceDisable s
       \<and> mLoggingProvenance s = mLoggingProvenance s0 \<and> mEnabled s = mEnabled s0
       \<and> (\<forall>f. isExempt s f = isExempt s0 f)"
  using assms
proof (induction M arbitrary: s0)
  case 0
  then show ?case by simp
next
  case (Suc k)
  from Suc.prems obtain s1 where u: "issueUndo s0 = Ok s1"
    and rest: "run (replicate k Undo) s1 = Ok s"
    by (auto split: res.splits)
  from issueUndo_Ok [OF u] have f1: "mStackPointer s1 < length (mUndoRedoStack s1)"
      "\<not> mUndoRedoProvenanceDisable s1" "mLoggingProvenance s1 = mLoggingProvenance s0"
      "mEnabled s1 = mEnabled s0" "\<forall>f. isExempt s1 f = isExempt s0 f"
    using issueUndo_isExempt [OF u] by auto
  show ?case
  proof (cases k)
    case 0
    with rest f1 show ?thesis by simp
  next
    case (Suc j)
    with Suc.IH [OF rest] f1 show ?thesis by simp
  qed
qed

section \<open>Truncation of the redo history\<close>

lemma logExecution_logs:
  assumes "\<not> mLoggingProvenance s" "\<not> mUndoRedoProvenanceDisable s"
    and le: "mStackPointer s \<le> length (mUndoRedoStack s)"
    and ft: "funTables s fname = Some ft"
    and len: "length funParams = length (lastExec ft)"
  shows "logExecution fname False funParams emptyParams s =
     Ok (s\<lparr>mUndoRedoStack := take (mStackPointer s) (mUndoRedoStack s) @
                [\<lparr>funcName = fname,
                  undoParams = (if lastExec ft = [] then emptyParams else lastExec ft),
                  redoParams = funParams\<rparr>],
             mStackPointer := mStackPointer s + 1,
             funTables := (funTables s)(fname \<mapsto> ft\<lparr>lastExec := funParams\<rparr>)\<rparr>)"
proof -
  have n: "nat (int (length (mUndoRedoStack s)) - int (mStackPointer s))
             = length (mUndoRedoStack s) - mStackPointer s"
    by simp
  have k: "length (mUndoRedoStack s) - (length (mUndoRedoStack s) - mStackPointer s)
               = mStackPointer s"
    using le by simp
  have f: "fold (\<lambda>i t. lastExec_set t i (funParams ! i)) [0..<length (lastExec ft)] (lastExec ft)
             = funParams"
    using len fold_lastExec_set [of "length funParams" funParams "lastExec ft"] by simp
  from assms(1,2) ft len le show ?thesis
    by (simp add: logExecution_def Let_def pop_back_n_take n k f map_lastExec_get)
qed

text \<open>
  C2. A non-exempt call that reaches \<^verbatim>\<open>logExecution\<close> while the ledger is
  neither logging nor replaying, for a registered function whose last-executed table has
  as many entries as the call has parameters, is logged: \<^verbatim>\<open>logExecution\<close>
  returns, and it leaves exactly the records below the stack pointer (every record at
  or above it is removed, however many there are), followed by the record of the call
  (its undo parameters are the previous last-executed parameters, its redo parameters
  the call's), and the stack pointer one higher, so that \<^verbatim>\<open>issueRedo\<close> then
  throws \<^verbatim>\<open>LuaProvenanceInvalidRedo\<close>. In particular, with provenance enabled,
  after \<open>M \<ge> 1\<close> successful undos the stack pointer is below the size of the stack,
  and a call of a non-exempt function whose native callable succeeds returns, is logged
  in that way, and redo throws \<^verbatim>\<open>LuaProvenanceInvalidRedo\<close>.
\<close>

theorem logging_truncates_redo_history:
  "(\<not> mLoggingProvenance s \<and> \<not> mUndoRedoProvenanceDisable s
      \<and> mStackPointer s \<le> length (mUndoRedoStack s)
      \<and> funTables s fname = Some ft \<and> length funParams = length (lastExec ft)
    \<longrightarrow> (\<exists>s'. logExecution fname False funParams emptyParams s = Ok s'
          \<and> mUndoRedoStack s' = take (mStackPointer s) (mUndoRedoStack s) @
                [\<lparr>funcName = fname,
                  undoParams = (if lastExec ft = [] then emptyParams else lastExec ft),
                  redoParams = funParams\<rparr>]
          \<and> mStackPointer s' = mStackPointer s + 1
          \<and> (\<exists>m. issueRedo s' = Raise (LuaProvenanceInvalidRedo m) s')))
   \<and> (1 \<le> M \<and> mEnabled sInit \<and> \<not> mLoggingProvenance sInit
      \<and> run (replicate M Undo) sInit = Ok s
      \<and> funTables s fname = Some ft \<and> \<not> stackExempt ft \<and> meta_call ft = Some (Some c)
      \<and> c funParams (native s) = Ok st \<and> length funParams = length (lastExec ft)
    \<longrightarrow> (\<exists>s'. invoke fname funParams s = Ok s'
          \<and> mUndoRedoStack s' = take (mStackPointer s) (mUndoRedoStack s) @
                [\<lparr>funcName = fname, undoParams = lastExec ft, redoParams = funParams\<rparr>]
          \<and> mStackPointer s' = mStackPointer s + 1
          \<and> mStackPointer s < length (mUndoRedoStack s)
          \<and> (\<exists>m. issueRedo s' = Raise (LuaProvenanceInvalidRedo m) s')))"
proof -
  have A: "\<exists>s'. logExecution fname False funParams emptyParams s = Ok s'
          \<and> mUndoRedoStack s' = take (mStackPointer s) (mUndoRedoStack s) @
                [\<lparr>funcName = fname,
                  undoParams = (if lastExec ft = [] then emptyParams else lastExec ft),
                  redoParams = funParams\<rparr>]
          \<and> mStackPointer s' = mStackPointer s + 1
          \<and> (\<exists>m. issueRedo s' = Raise (LuaProvenanceInvalidRedo m) s')"
    if h: "\<not> mLoggingProvenance s" "\<not> mUndoRedoProvenanceDisable s"
      "mStackPointer s \<le> length (mUndoRedoStack s)"
      "funTables s fname = Some ft" "length funParams = length (lastExec ft)"
    for s :: "'a LuaProvenance" and emptyParams
  proof -
    let ?s' = "s\<lparr>mUndoRedoStack := take (mStackPointer s) (mUndoRedoStack s) @
                [\<lparr>funcName = fname,
                  undoParams = (if lastExec ft = [] then emptyParams else lastExec ft),
                  redoParams = funParams\<rparr>],
             mStackPointer := mStackPointer s + 1,
             funTables := (funTables s)(fname \<mapsto> ft\<lparr>lastExec := funParams\<rparr>)\<rparr>"
    have ok: "logExecution fname False funParams emptyParams s = Ok ?s'"
      by (rule logExecution_logs [OF h])
    have "mStackPointer ?s' = length (mUndoRedoStack ?s')" using h(3) by simp
    from issueRedo_at_top [OF this] ok show ?thesis by auto
  qed
  have B: "\<exists>s'. invoke fname funParams s = Ok s'
          \<and> mUndoRedoStack s' = take (mStackPointer s) (mUndoRedoStack s) @
                [\<lparr>funcName = fname, undoParams = lastExec ft, redoParams = funParams\<rparr>]
          \<and> mStackPointer s' = mStackPointer s + 1
          \<and> mStackPointer s < length (mUndoRedoStack s)
          \<and> (\<exists>m. issueRedo s' = Raise (LuaProvenanceInvalidRedo m) s')"
    if h: "1 \<le> M" "mEnabled sInit" "\<not> mLoggingProvenance sInit"
      "run (replicate M Undo) sInit = Ok s"
      "funTables s fname = Some ft" "\<not> stackExempt ft" "meta_call ft = Some (Some c)"
      "c funParams (native s) = Ok st" "length funParams = length (lastExec ft)"
  proof -
    from undos_Ok [OF h(4) h(1)] h(2,3)
    have s: "mStackPointer s < length (mUndoRedoStack s)" "\<not> mUndoRedoProvenanceDisable s"
      "\<not> mLoggingProvenance s" "mEnabled s"
      by simp_all
    let ?s = "s\<lparr>native := st\<rparr>"
    have inv: "invoke fname funParams s = logExecution fname False funParams [] ?s"
      using h(5,6,7,8) s(4) by (simp add: invoke_def exec_def)
    have "\<exists>s'. logExecution fname False funParams [] ?s = Ok s'
          \<and> mUndoRedoStack s' = take (mStackPointer ?s) (mUndoRedoStack ?s) @
                [\<lparr>funcName = fname,
                  undoParams = (if lastExec ft = [] then [] else lastExec ft),
                  redoParams = funParams\<rparr>]
          \<and> mStackPointer s' = mStackPointer ?s + 1
          \<and> (\<exists>m. issueRedo s' = Raise (LuaProvenanceInvalidRedo m) s')"
      by (rule A) (use s h(5,9) in simp_all)
    with inv s(1) show ?thesis by auto
  qed
  from A B show ?thesis by blast
qed

theorem logging_truncates_redo_history_witness:
  "run (replicate 2 Undo) threeCalls = Ok rewound
   \<and> mStackPointer rewound = 1 \<and> length (mUndoRedoStack rewound) = 3
   \<and> invoke ''set_i1'' [LNum 42] rewound = Ok branched
   \<and> mUndoRedoStack branched =
        [\<lparr>funcName = ''set_i1'', undoParams = [LNum 0], redoParams = [LNum 1]\<rparr>,
         \<lparr>funcName = ''set_i1'', undoParams = [LNum 1], redoParams = [LNum 42]\<rparr>]
   \<and> mStackPointer branched = 2
   \<and> (\<exists>m. issueRedo branched = Raise (LuaProvenanceInvalidRedo m) branched)
   \<and> (\<exists>s'. logExecution ''set_i1'' False [LNum 42] [] rewound = Ok s'
          \<and> length (mUndoRedoStack s') = 2 \<and> mStackPointer s' = 2)"
proof -
  have u: "run (replicate 2 Undo) threeCalls = Ok rewound"
    by (simp add: numeral_2_eq_2 rewound_def scenario_defs fixture_defs ledger_defs)
  have sz: "mStackPointer rewound = 1" "length (mUndoRedoStack rewound) = 3"
    "take (mStackPointer rewound) (mUndoRedoStack rewound)
       = [\<lparr>funcName = ''set_i1'', undoParams = [LNum 0], redoParams = [LNum 1]\<rparr>]"
    by (simp_all add: numeral_2_eq_2 rewound_def scenario_defs fixture_defs ledger_defs)
  have st: "mEnabled threeCalls" "\<not> mLoggingProvenance threeCalls"
    "\<not> mLoggingProvenance rewound" "\<not> mUndoRedoProvenanceDisable rewound"
    by (simp_all add: numeral_2_eq_2 rewound_def scenario_defs fixture_defs ledger_defs)
  have ft: "funTables rewound ''set_i1'' = Some ((registered set_i1)\<lparr>lastExec := [LNum 1]\<rparr>)"
    by (simp add: numeral_2_eq_2 rewound_def scenario_defs fixture_defs ledger_defs)
  have c: "set_i1 [LNum 42] (native rewound) = Ok ((native rewound)\<lparr>i1 := 42\<rparr>)"
    by (simp add: set_i1_def)
  note inst = logging_truncates_redo_history
         [where M = 2 and sInit = threeCalls and s = rewound and fname = "''set_i1''"
            and funParams = "[LNum 42]" and emptyParams = "[]"
            and ft = "(registered set_i1)\<lparr>lastExec := [LNum 1]\<rparr>" and c = set_i1
            and st = "(native rewound)\<lparr>i1 := 42\<rparr>"]
  from inst u st ft c sz obtain s' where
    i: "invoke ''set_i1'' [LNum 42] rewound = Ok s'"
    and k: "mUndoRedoStack s' =
        [\<lparr>funcName = ''set_i1'', undoParams = [LNum 0], redoParams = [LNum 1]\<rparr>,
         \<lparr>funcName = ''set_i1'', undoParams = [LNum 1], redoParams = [LNum 42]\<rparr>]"
    and p: "mStackPointer s' = 2"
    and r: "\<exists>m. issueRedo s' = Raise (LuaProvenanceInvalidRedo m) s'"
    by (auto simp: registered_def)
  from i have b: "s' = branched" by (simp add: branched_def)
  from inst st ft sz obtain s'' where
    "logExecution ''set_i1'' False [LNum 42] [] rewound = Ok s''"
    "length (mUndoRedoStack s'') = 2" "mStackPointer s'' = 2"
    by (auto simp: registered_def)
  then have l: "\<exists>s'. logExecution ''set_i1'' False [LNum 42] [] rewound = Ok s'
          \<and> length (mUndoRedoStack s') = 2 \<and> mStackPointer s' = 2"
    by blast
  from u sz(1,2) i k p r b l show ?thesis by simp
qed

section \<open>Exemption of the provenance functions\<close>

text \<open>
  C3, as the code has it. Where none of the five names is taken,
  \<^verbatim>\<open>registerLuaProvenanceFunctions\<close> registers all five; it marks
  \<^verbatim>\<open>provenance.undo\<close>, \<^verbatim>\<open>provenance.redo\<close>,
  \<^verbatim>\<open>provenance.enable\<close> and \<^verbatim>\<open>provenance.clear\<close> exempt and leaves
  \<^verbatim>\<open>provenance.enableReentryException\<close> not exempt ("Reentry exception does
  not need to be stack exempt").
\<close>

theorem provenance_functions_exemption:
  assumes "\<forall>n \<in> set provenanceNames. tabs n = None"
  shows "\<exists>tabs'. registerLuaProvenanceFunctions tabs = Inr tabs'
           \<and> (\<forall>n \<in> set provenanceNames. tabs' n \<noteq> None)
           \<and> exemptIn tabs' ''provenance.undo''
           \<and> exemptIn tabs' ''provenance.redo''
           \<and> exemptIn tabs' ''provenance.enable''
           \<and> exemptIn tabs' ''provenance.clear''
           \<and> \<not> exemptIn tabs' ''provenance.enableReentryException''"
  using assms
  by (simp add: provenanceNames_def registerLuaProvenanceFunctions_def andThen_def
        registerFunction_def setUndoRedoStackExempt_def exemptIn_def)

theorem provenance_functions_exemption_witness:
  "\<exists>tabs'. registerLuaProvenanceFunctions Map.empty = Inr tabs'
           \<and> exemptIn tabs' ''provenance.undo''
           \<and> exemptIn tabs' ''provenance.redo''
           \<and> exemptIn tabs' ''provenance.enable''
           \<and> exemptIn tabs' ''provenance.clear''
           \<and> \<not> exemptIn tabs' ''provenance.enableReentryException''"
proof -
  have "\<forall>n \<in> set provenanceNames. (Map.empty :: string \<Rightarrow> memberFn funTable option) n = None"
    by simp
  from provenance_functions_exemption [OF this] show ?thesis by blast
qed

text \<open>
  C3, as stated, fails: after the registration into an empty registry
  \<^verbatim>\<open>provenance.enableReentryException\<close> is registered and is not exempt.
\<close>

theorem reentry_toggle_not_exempt:
  "registerLuaProvenanceFunctions Map.empty = Inr provenanceTables
   \<and> provenanceTables ''provenance.enableReentryException'' \<noteq> None
   \<and> \<not> exemptIn provenanceTables ''provenance.enableReentryException''"
  by (simp add: provenanceTables_def registerLuaProvenanceFunctions_def andThen_def
        registerFunction_def setUndoRedoStackExempt_def exemptIn_def)

section \<open>Marshaling of sequences and of class instances\<close>

lemma vector_get_loop_prefix:
  assumes "\<forall>j < length ys. table_get t (KNum (index + int j)) \<noteq> LNil
              \<and> elemGet (table_get t (KNum (index + int j))) = Inr (ys ! j)"
    and "table_get t (KNum (index + int (length ys))) = LNil"
  shows "vector_get_loop elemGet t index ret = Inr (ret @ ys)"
  using assms
proof (induction ys arbitrary: index ret)
  case Nil
  then show ?case by (subst vector_get_loop.simps) simp
next
  case (Cons y ys)
  from Cons.prems(1) have h0: "table_get t (KNum index) \<noteq> LNil"
    "elemGet (table_get t (KNum index)) = Inr y"
    by force+
  have step: "\<forall>j < length ys. table_get t (KNum (index + 1 + int j)) \<noteq> LNil
              \<and> elemGet (table_get t (KNum (index + 1 + int j))) = Inr (ys ! j)"
  proof (intro allI impI)
    fix j assume "j < length ys"
    then have "Suc j < length (y # ys)" by simp
    from Cons.prems(1) [rule_format, OF this]
    show "table_get t (KNum (index + 1 + int j)) \<noteq> LNil
              \<and> elemGet (table_get t (KNum (index + 1 + int j))) = Inr (ys ! j)"
      by (simp add: algebra_simps)
  qed
  have stop: "table_get t (KNum (index + 1 + int (length ys))) = LNil"
    using Cons.prems(2) by (simp add: algebra_simps)
  from Cons.IH [OF step stop, of "ret @ [y]"] h0
  show ?case by (subst vector_get_loop.simps) simp
qed

text \<open>
  C8. The \<^verbatim>\<open>get\<close> of the vector binding reads the keys \<open>1, 2, 3, ...\<close> and
  stops at the first key that is missing: when the keys \<open>1 .. n\<close> hold values the
  element binding reads as \<open>xs\<close> and the key \<open>n + 1\<close> is missing, the result is
  \<open>xs\<close> and no error, whatever keys lie beyond. A table with the keys 1 and 3
  gives the one-element sequence of the value at key 1.
\<close>

theorem vector_get_stops_at_first_missing_key:
  assumes "\<forall>i \<in> {1 .. int (length xs)}. table_get t (KNum i) \<noteq> LNil
              \<and> elemGet (table_get t (KNum i)) = Inr (xs ! nat (i - 1))"
    and "table_get t (KNum (int (length xs) + 1)) = LNil"
  shows "vector_get elemGet (LTable t m) = Inr xs"
proof -
  have pre: "\<forall>j < length xs. table_get t (KNum (1 + int j)) \<noteq> LNil
              \<and> elemGet (table_get t (KNum (1 + int j))) = Inr (xs ! j)"
  proof (intro allI impI)
    fix j assume "j < length xs"
    then have "1 + int j \<in> {1 .. int (length xs)}" by simp
    from assms(1) [rule_format, OF this]
    show "table_get t (KNum (1 + int j)) \<noteq> LNil
              \<and> elemGet (table_get t (KNum (1 + int j))) = Inr (xs ! j)"
      by simp
  qed
  have stop: "table_get t (KNum (1 + int (length xs))) = LNil"
    using assms(2) by (simp add: algebra_simps)
  from vector_get_loop_prefix [OF pre stop, of "[]"]
  show ?thesis by (simp add: vector_get_def)
qed

theorem vector_get_stops_at_first_missing_key_witness:
  "vector_get bool_get sparseTable = Inr [True]"
proof -
  let ?t = "[(KNum 1, LBool True), (KNum 3, LBool False)]"
  have a: "\<forall>i \<in> {1 .. int (length [True])}. table_get ?t (KNum i) \<noteq> LNil
              \<and> bool_get (table_get ?t (KNum i)) = Inr ([True] ! nat (i - 1))"
    by (simp add: table_get_def bool_get_def)
  have b: "table_get ?t (KNum (int (length [True]) + 1)) = LNil"
    by (simp add: table_get_def)
  from vector_get_stops_at_first_missing_key [OF a b, of None]
  show ?thesis by (simp add: sparseTable_def)
qed

text \<open>
  C9. The \<^verbatim>\<open>get\<close> of the class-instance binding returns the default instance
  id on \<^verbatim>\<open>nil\<close> instead of failing. Its \<^verbatim>\<open>push\<close> leaves, for the
  default id and for an id whose instance table the runtime no longer finds, a table
  without metatable whose only field is \<^verbatim>\<open>_DefaultInstance_\<close>, set to
  \<^verbatim>\<open>true\<close>: a table, never \<^verbatim>\<open>nil\<close> and not the instance's table. Only an
  id other than the default whose instance table exists is pushed as that table. The
  \<^verbatim>\<open>get\<close> reads the marker table, and any table that carries the field, back
  as the default id.
\<close>

theorem class_instance_sentinel:
  "LuaClassInstance_get d k LNil = Inr d
   \<and> LuaClassInstance_push d dostring d
         = LTable [(KStr ''_DefaultInstance_'', LBool True)] None
   \<and> (dostring inst = LNil \<longrightarrow>
        LuaClassInstance_push d dostring inst
          = LTable [(KStr ''_DefaultInstance_'', LBool True)] None)
   \<and> (inst \<noteq> d \<and> dostring inst \<noteq> LNil \<longrightarrow>
        LuaClassInstance_push d dostring inst = dostring inst)
   \<and> LuaClassInstance_push d dostring inst \<noteq> LNil
   \<and> table_get [(KStr ''_DefaultInstance_'', LBool True)] (KStr ''_DefaultInstance_'')
         = LBool True
   \<and> LuaClassInstance_get d k (LTable [(KStr ''_DefaultInstance_'', LBool True)] None)
         = Inr d
   \<and> (table_get flds (KStr ''_DefaultInstance_'') \<noteq> LNil \<longrightarrow>
        LuaClassInstance_get d k (LTable flds meta) = Inr d)"
  by (simp add: LuaClassInstance_get_def LuaClassInstance_push_def table_get_def)

theorem class_instance_sentinel_witness:
  "LuaClassInstance_get (-1) ''globalID'' LNil = Inr (-1)
   \<and> LuaClassInstance_push (-1) (\<lambda>i. LNil) (-1)
         = LTable [(KStr ''_DefaultInstance_'', LBool True)] None
   \<and> LuaClassInstance_push (-1) (\<lambda>i. LNil) 5
         = LTable [(KStr ''_DefaultInstance_'', LBool True)] None
   \<and> LuaClassInstance_push (-1) (\<lambda>i. LStr ''live'') 5 = LStr ''live''
   \<and> LuaClassInstance_push (-1) (\<lambda>i. LNil) 5 \<noteq> LNil
   \<and> LuaClassInstance_get (-1) ''globalID''
         (LTable [(KStr ''_DefaultInstance_'', LBool True), (KNum 1, LNum 7)] None) = Inr (-1)"
proof -
  have a: "(\<lambda>i::int. LNil) 5 = LNil" by simp
  have b: "(5::int) \<noteq> -1 \<and> (\<lambda>i::int. LStr ''live'') 5 \<noteq> LNil" by simp
  have c: "table_get [(KStr ''_DefaultInstance_'', LBool True), (KNum 1, LNum 7)]
             (KStr ''_DefaultInstance_'') \<noteq> LNil"
    by (simp add: table_get_def)
  from class_instance_sentinel
         [of "-1" "''globalID''" "\<lambda>i. LNil" 5
             "[(KStr ''_DefaultInstance_'', LBool True), (KNum 1, LNum 7)]" None]
       class_instance_sentinel
         [of "-1" "''globalID''" "\<lambda>i. LStr ''live''" 5
             "[(KStr ''_DefaultInstance_'', LBool True), (KNum 1, LNum 7)]" None]
       a b c
  show ?thesis by simp
qed

section \<open>The last-executed parameters\<close>

lemma copyParamsToTable_eq: "copyParamsToTable t ps = ps @ drop (length ps) t"
  by (simp add: copyParamsToTable_def fold_lastExec_set)

lemma invoke_Ok_logged:
  assumes idle: "idle s" and ne: "\<not> isExempt s f" and ok: "invoke f args s = Ok s'"
  shows "\<exists>ft c st. funTables s f = Some ft \<and> meta_call ft = Some (Some c)
          \<and> c args (native s) = Ok st \<and> length args = length (lastExec ft)
          \<and> mStackPointer s \<le> length (mUndoRedoStack s)
          \<and> s' = s\<lparr>native := st,
                   mUndoRedoStack := take (mStackPointer s) (mUndoRedoStack s) @
                      [\<lparr>funcName = f, undoParams = lastExec ft, redoParams = args\<rparr>],
                   mStackPointer := mStackPointer s + 1,
                   funTables := (funTables s)(f \<mapsto> ft\<lparr>lastExec := args\<rparr>)\<rparr>"
proof -
  from ok obtain ft c where ft: "funTables s f = Some ft"
    and c: "meta_call ft = Some (Some c)"
    and e: "exec c (stackExempt ft) f args s = Ok s'"
    by (auto simp: invoke_def split: option.splits)
  from ne ft have nex: "\<not> stackExempt ft" by (simp add: isExempt_def)
  from idle have en: "mEnabled s" by (simp add: idle_def)
  from exec_Raise_or_Ok [of c args s "stackExempt ft" f] e nex en
  obtain st where st: "c args (native s) = Ok st"
    and lg: "logExecution f False args [] (s\<lparr>native := st\<rparr>) = Ok s'"
    by auto
  let ?s = "s\<lparr>native := st\<rparr>"
  have i1: "\<not> mLoggingProvenance ?s" and i2: "\<not> mUndoRedoProvenanceDisable ?s"
    using idle by (simp_all add: idle_def)
  from logExecution_Ok_le [OF i1 i2 lg] have le: "mStackPointer ?s \<le> length (mUndoRedoStack ?s)" .
  from logExecution_Ok_logged [OF i1 i2 lg] ft
  have len: "length args = length (lastExec ft)"
    and s': "s' = ?s\<lparr>mUndoRedoStack := take (mStackPointer ?s) (mUndoRedoStack ?s) @
                      [\<lparr>funcName = f,
                        undoParams = (if lastExec ft = [] then [] else lastExec ft),
                        redoParams = args\<rparr>],
                   mStackPointer := mStackPointer ?s + 1,
                   funTables := (funTables ?s)(f \<mapsto> ft\<lparr>lastExec :=
                      fold (\<lambda>i t. lastExec_set t i (args ! i)) [0..<length args]
                        (lastExec ft)\<rparr>)\<rparr>"
    by auto
  have "fold (\<lambda>i t. lastExec_set t i (args ! i)) [0..<length args] (lastExec ft) = args"
    using len by (simp add: fold_lastExec_set)
  with s' have "s' = s\<lparr>native := st,
                   mUndoRedoStack := take (mStackPointer s) (mUndoRedoStack s) @
                      [\<lparr>funcName = f, undoParams = lastExec ft, redoParams = args\<rparr>],
                   mStackPointer := mStackPointer s + 1,
                   funTables := (funTables s)(f \<mapsto> ft\<lparr>lastExec := args\<rparr>)\<rparr>"
    by simp
  with ft c st len le show ?thesis by auto
qed

text \<open>
  The last-executed table where the code keeps it in step. After a successful call of a
  non-exempt function issued while the ledger is enabled and idle, the function's
  last-executed table holds the arguments the callable ran with. After a successful
  \<^verbatim>\<open>issueUndo\<close> or \<^verbatim>\<open>issueRedo\<close> the table of the replayed function holds
  the replayed parameters, the undo respectively redo parameters of the record, which
  the callable ran with (the table has no more entries than the record has parameters).
\<close>

lemma last_exec_snapshot:
  "(idle s \<and> \<not> isExempt s fname \<and> invoke fname args s = Ok s'
      \<longrightarrow> map_option lastExec (funTables s' fname) = Some args
          \<and> (\<exists>ft c. funTables s fname = Some ft \<and> meta_call ft = Some (Some c)
                \<and> c args (native s) = Ok (native s')))
   \<and> (issueUndo s = Ok s' \<and> r = mUndoRedoStack s ! (mStackPointer s - 1)
        \<and> (\<forall>ft. funTables s (funcName r) = Some ft
              \<longrightarrow> length (lastExec ft) \<le> length (undoParams r))
      \<longrightarrow> map_option lastExec (funTables s' (funcName r)) = Some (undoParams r)
          \<and> (\<exists>ft c. funTables s (funcName r) = Some ft \<and> meta_call ft = Some (Some c)
                \<and> c (undoParams r) (native s) = Ok (native s')))
   \<and> (issueRedo s = Ok s' \<and> r = mUndoRedoStack s ! mStackPointer s
        \<and> (\<forall>ft. funTables s (funcName r) = Some ft
              \<longrightarrow> length (lastExec ft) \<le> length (redoParams r))
      \<longrightarrow> map_option lastExec (funTables s' (funcName r)) = Some (redoParams r)
          \<and> (\<exists>ft c. funTables s (funcName r) = Some ft \<and> meta_call ft = Some (Some c)
                \<and> c (redoParams r) (native s) = Ok (native s')))"
proof -
  have direct: "map_option lastExec (funTables s' fname) = Some args
          \<and> (\<exists>ft c. funTables s fname = Some ft \<and> meta_call ft = Some (Some c)
                \<and> c args (native s) = Ok (native s'))"
    if "idle s" "\<not> isExempt s fname" "invoke fname args s = Ok s'"
    using invoke_Ok_logged [OF that] by auto
  have undo: "map_option lastExec (funTables s' (funcName r)) = Some (undoParams r)
          \<and> (\<exists>ft c. funTables s (funcName r) = Some ft \<and> meta_call ft = Some (Some c)
                \<and> c (undoParams r) (native s) = Ok (native s'))"
    if "issueUndo s = Ok s'" "r = mUndoRedoStack s ! (mStackPointer s - 1)"
      "\<forall>ft. funTables s (funcName r) = Some ft
              \<longrightarrow> length (lastExec ft) \<le> length (undoParams r)"
    using issueUndo_Ok [OF that(1)] that(2,3) by (auto simp: copyParamsToTable_eq)
  have redo: "map_option lastExec (funTables s' (funcName r)) = Some (redoParams r)
          \<and> (\<exists>ft c. funTables s (funcName r) = Some ft \<and> meta_call ft = Some (Some c)
                \<and> c (redoParams r) (native s) = Ok (native s'))"
    if "issueRedo s = Ok s'" "r = mUndoRedoStack s ! mStackPointer s"
      "\<forall>ft. funTables s (funcName r) = Some ft
              \<longrightarrow> length (lastExec ft) \<le> length (redoParams r)"
    using issueRedo_Ok [OF that(1)] that(2,3) by (auto simp: copyParamsToTable_eq)
  from direct undo redo show ?thesis by blast
qed

lemma last_exec_snapshot_witness:
  "idle testState \<and> \<not> isExempt testState ''set_i1''
   \<and> invoke ''set_i1'' [LNum 1] testState = Ok oneCall
   \<and> map_option lastExec (funTables oneCall ''set_i1'') = Some [LNum 1]
   \<and> issueUndo threeCalls = Ok afterUndo
   \<and> map_option lastExec (funTables afterUndo ''set_i2'') = Some [LNum 0]
   \<and> issueRedo afterUndo = Ok (state_of (issueRedo afterUndo))
   \<and> map_option lastExec (funTables (state_of (issueRedo afterUndo)) ''set_i2'') = Some [LNum 10]"
proof -
  have d: "idle testState" "\<not> isExempt testState ''set_i1''"
    "invoke ''set_i1'' [LNum 1] testState = Ok oneCall"
    by (simp_all add: idle_def isExempt_def scenario_defs fixture_defs ledger_defs)
  have u: "issueUndo threeCalls = Ok afterUndo"
    "mUndoRedoStack threeCalls ! (mStackPointer threeCalls - 1)
       = \<lparr>funcName = ''set_i2'', undoParams = [LNum 0], redoParams = [LNum 10]\<rparr>"
    "\<forall>ft. funTables threeCalls ''set_i2'' = Some ft \<longrightarrow> length (lastExec ft) \<le> length [LNum 0]"
    by (auto simp: scenario_defs fixture_defs ledger_defs)
  have r: "issueRedo afterUndo = Ok (state_of (issueRedo afterUndo))"
    "mUndoRedoStack afterUndo ! mStackPointer afterUndo
       = \<lparr>funcName = ''set_i2'', undoParams = [LNum 0], redoParams = [LNum 10]\<rparr>"
    "\<forall>ft. funTables afterUndo ''set_i2'' = Some ft \<longrightarrow> length (lastExec ft) \<le> length [LNum 10]"
    by (auto simp: scenario_defs fixture_defs ledger_defs)
  from last_exec_snapshot [where s = testState and s' = oneCall and fname = "''set_i1''"
      and args = "[LNum 1]"] d
  have 1: "map_option lastExec (funTables oneCall ''set_i1'') = Some [LNum 1]" by blast
  from last_exec_snapshot [where s = threeCalls and s' = afterUndo
      and r = "\<lparr>funcName = ''set_i2'', undoParams = [LNum 0], redoParams = [LNum 10]\<rparr>"] u
  have 2: "map_option lastExec (funTables afterUndo ''set_i2'') = Some [LNum 0]" by simp
  from last_exec_snapshot [where s = afterUndo and s' = "state_of (issueRedo afterUndo)"
      and r = "\<lparr>funcName = ''set_i2'', undoParams = [LNum 0], redoParams = [LNum 10]\<rparr>"] r
  have 3: "map_option lastExec (funTables (state_of (issueRedo afterUndo)) ''set_i2'')
             = Some [LNum 10]" by simp
  from d u(1) r(1) 1 2 3 show ?thesis by simp
qed

text \<open>
  C7. After \<^verbatim>\<open>set_pos(5)\<close>, \<^verbatim>\<open>provenance.undo()\<close> replays
  \<^verbatim>\<open>set_pos(0)\<close>, which throws; the assignment after \<^verbatim>\<open>lua_call\<close> that
  clears \<^verbatim>\<open>mUndoRedoProvenanceDisable\<close> is skipped and nothing else clears the
  flag. The script then calls the non-exempt function \<^verbatim>\<open>set_i1(7)\<close>. The call
  succeeds and \<open>i1\<close> becomes \<open>7\<close>, but \<^verbatim>\<open>logExecution\<close> returns at its
  second guard: the last-executed table of \<^verbatim>\<open>set_i1\<close> still holds the default
  \<open>0\<close> and no record is added. The source's own comments ("Repopulate the lastExec
  table to most recently executed function parameters", "Last exec table parameters
  will match what we just executed") say the table follows every call.
\<close>

theorem call_after_failed_replay_keeps_stale_snapshot:
  "run [Call ''set_pos'' [LNum 5], Undo] strictState
     = Raise (LuaError ''positive number expected'') stuckState
   \<and> mUndoRedoProvenanceDisable stuckState
   \<and> map_option lastExec (funTables stuckState ''set_i1'') = Some [LNum 0]
   \<and> isExempt stuckState ''set_i1'' = False
   \<and> invoke ''set_i1'' [LNum 7] stuckState = Ok (stuckState\<lparr>native := \<lparr>i1 = 7, i2 = 5\<rparr>\<rparr>)
   \<and> map_option lastExec (funTables (stuckState\<lparr>native := \<lparr>i1 = 7, i2 = 5\<rparr>\<rparr>) ''set_i1'')
        = Some [LNum 0]
   \<and> mUndoRedoStack (stuckState\<lparr>native := \<lparr>i1 = 7, i2 = 5\<rparr>\<rparr>)
        = [\<lparr>funcName = ''set_pos'', undoParams = [LNum 0], redoParams = [LNum 5]\<rparr>]"
  by (simp add: isExempt_def strict_defs fixture_defs ledger_defs set_i1_def
        issueUndo_def performUndoRedoOp_def)

section \<open>History linearity\<close>

























section \<open>Undo, then redo\<close>















end
